theory Spec2Isabelle
  imports Complex_Main "HOL-Library.Multiset"
begin

section \<open>JavaScript values\<close>

text \<open>
  Values of TypeScript type \<open>any\<close> (a tool result, its error payload, tool arguments,
  raw MCP content blocks) are untyped JSON-like values. An object is the list of its
  properties in insertion order.
\<close>

datatype jsval =
    JUndefined
  | JNull
  | JBool bool
  | JNum real
  | JStr string
  | JArr "jsval list"
  | JObj "(string \<times> jsval) list"

text \<open>Truthiness, as used by \<open>if (x)\<close>, \<open>!x\<close>, \<open>x && y\<close> and \<open>x || y\<close>.\<close>

fun truthy :: "jsval \<Rightarrow> bool" where
  "truthy JUndefined = False"
| "truthy JNull = False"
| "truthy (JBool b) = b"
| "truthy (JNum n) = (n \<noteq> 0)"
| "truthy (JStr s) = (s \<noteq> [])"
| "truthy (JArr xs) = True"
| "truthy (JObj ps) = True"

fun nullish :: "jsval \<Rightarrow> bool" where
  "nullish JUndefined = True"
| "nullish JNull = True"
| "nullish v = False"

text \<open>
  \<open>v.key\<close> for a value that is neither \<open>undefined\<close> nor \<open>null\<close> (reading a property of
  those throws a TypeError, which the callers below test first). The keys read by the
  modelled code (\<open>isError\<close>, \<open>error\<close>, \<open>content\<close>, \<open>contents\<close>) are not properties of
  strings, numbers, booleans or arrays, where the read gives \<open>undefined\<close>.
\<close>

fun js_prop :: "jsval \<Rightarrow> string \<Rightarrow> jsval" where
  "js_prop (JObj ps) k = (case map_of ps k of None \<Rightarrow> JUndefined | Some v \<Rightarrow> v)"
| "js_prop v k = JUndefined"

text \<open>\<open>Array.isArray(v) ? v : []\<close>\<close>

fun array_or_empty :: "jsval \<Rightarrow> jsval list" where
  "array_or_empty (JArr xs) = xs"
| "array_or_empty v = []"

text \<open>\<open>v ?? {}\<close>\<close>

definition or_empty_object :: "jsval \<Rightarrow> jsval" where
  "or_empty_object v = (if nullish v then JObj [] else v)"

text \<open>\<open>xs.join(sep)\<close> on an array of strings.\<close>

fun join :: "string \<Rightarrow> string list \<Rightarrow> string" where
  "join sep [] = []"
| "join sep [x] = x"
| "join sep (x # y # ys) = x @ sep @ join sep (y # ys)"

text \<open>
  \<open>xs.join(sep)\<close> on an array whose elements are strings or \<open>undefined\<close>: \<open>join\<close> renders
  \<open>undefined\<close> as the empty string.
\<close>

definition join_opt :: "string \<Rightarrow> string option list \<Rightarrow> string" where
  "join_opt sep xs = join sep (map (\<lambda>x. case x of None \<Rightarrow> [] | Some s \<Rightarrow> s) xs)"

definition newline :: string where
  "newline = [CHR 0x0A]"

text \<open>\<open>s.split('--')[0]\<close>: the text before the leftmost \<open>--\<close>, or all of \<open>s\<close>.\<close>

fun before_dashes :: "string \<Rightarrow> string" where
  "before_dashes [] = []"
| "before_dashes [c] = [c]"
| "before_dashes (c # d # cs) =
     (if c = CHR ''-'' \<and> d = CHR ''-'' then [] else c # before_dashes (d # cs))"

text \<open>
  \<open>s.split(',')\<close>: the pieces of \<open>s\<close> between commas; never empty.
\<close>

fun split_comma :: "string \<Rightarrow> string list" where
  "split_comma [] = [[]]"
| "split_comma (c # cs) =
     (if c = CHR '','' then [] # split_comma cs
      else (case split_comma cs of
              [] \<Rightarrow> [[c]]
            | p # ps \<Rightarrow> (c # p) # ps))"

text \<open>\<open>s.split(',')[1]\<close>: \<open>undefined\<close> when \<open>s\<close> has no comma.\<close>

definition split_comma_second :: "string \<Rightarrow> string option" where
  "split_comma_second s = (case split_comma s of _ # p # _ \<Rightarrow> Some p | _ \<Rightarrow> None)"


section \<open>Messages, content parts and tools\<close>

text \<open>
  \<open>IChatRequestMessageContent\<close>, with the fields the adapters read: \<open>type\<close>, \<open>text\<close>,
  \<open>image_url?.url\<close> and \<open>images\<close>. \<open>None\<close> is an absent field.
\<close>

record content_part =
  c_type :: string
  c_text :: "string option"
  c_image_url :: "string option"
  c_images :: "string list option"

text \<open>The object literal \<open>{ type: 'text', text: t }\<close>.\<close>

definition text_part :: "string option \<Rightarrow> content_part" where
  "text_part t = \<lparr>c_type = ''text'', c_text = t, c_image_url = None, c_images = None\<rparr>"

text \<open>
  The \<open>content\<close> of an \<open>IChatRequestMessage\<close>: a string, an array of content parts, or
  anything else (absent, \<open>null\<close>, another object).
\<close>

datatype msg_content = CString string | CArray "content_part list" | CNone

record message =
  role :: string
  content :: msg_content
  name :: "string option"
  tool_calls :: jsval
  tool_call_id :: "string option"
  images :: "string list option"

text \<open>\<open>ITool\<close>: a tool call issued by the model.\<close>

record tool =
  tool_id :: string
  tool_name :: string
  tool_args :: jsval

text \<open>
  Modelled from the spec: \<open>FinalContentBlock\<close>, the result type of the content converter
  (\<open>intellichat/mcp/ContentBlockConverter\<close>), a tagged content block. The adapters read
  its \<open>type\<close> and, of a text block, its \<open>text\<close>; the rest of the block is carried along.
\<close>

record FinalContentBlock =
  block_type :: string
  block_text :: "string option"
  block_payload :: jsval

datatype error =
    TypeError
  | ConversionRejected
  | FetchRejected
  | UnknownMessageType
  | StructuredPromptsParseError
  | UpstreamError

section \<open>The platform\<close>

text \<open>
  What the adapters call and this development does not define: the content converter,
  \<open>JSON.stringify\<close>, the MCP bridge of the renderer, and the order in which concurrent
  conversions complete. \<open>convert\<close> is an asynchronous function: \<open>None\<close> is a rejected
  promise. \<open>completion i\<close> is the time at which the \<open>i\<close>-th of a group of concurrently
  started tasks completes.
\<close>

record platform =
  JSON_stringify :: "jsval \<Rightarrow> string option"
  convert :: "(string \<Rightarrow> jsval option) \<Rightarrow> jsval \<Rightarrow> FinalContentBlock option"
  contentBlockToLegacyMessageContent :: "FinalContentBlock \<Rightarrow> content_part"
  readResource :: "string \<Rightarrow> string \<Rightarrow> jsval option"
  completion :: "nat \<Rightarrow> nat"

text \<open>
  The resolver handed to the converter:
  \<open>(uri) => window.electron.mcp.readResource(tool.name.split('--')[0], uri)
     .then((result) => result.isError ? [] : result.contents)\<close>.
\<close>

definition resolveResource :: "platform \<Rightarrow> tool \<Rightarrow> string \<Rightarrow> jsval option" where
  "resolveResource p t uri =
     (case readResource p (before_dashes (tool_name t)) uri of
        None \<Rightarrow> None
      | Some result \<Rightarrow>
          if nullish result then None
          else if truthy (js_prop result ''isError'') then Some (JArr [])
          else Some (js_prop result ''contents''))"

text \<open>
  Tasks started together and pushing their result when they complete: the results arrive
  ordered by completion time, tasks completing at the same time in the order they were
  started.
\<close>

definition in_completion_order :: "(nat \<Rightarrow> nat) \<Rightarrow> 'a list \<Rightarrow> 'a list" where
  "in_completion_order c xs = map snd (sort_key (\<lambda>ix. c (fst ix)) (enumerate 0 xs))"

section \<open>Anthropic: tool messages\<close>

datatype image_source =
    Base64Source "string option" "string option"
  | UrlSource string

text \<open>
  The content blocks the Anthropic adapter builds: \<open>{type:'text', text}\<close>,
  \<open>{type:'image', source}\<close>, \<open>{type:'tool_use', id, name, input}\<close>,
  \<open>{type:'tool_result', tool_use_id, content}\<close>, and a legacy content part pushed as it is.
\<close>

datatype block =
    TextBlock "string option"
  | ImageBlock image_source
  | ToolUse string string jsval
  | ToolResult string "string option"
  | Legacy content_part

datatype anthropic_content = Text string | Blocks "block list"

record anthropic_message =
  a_role :: string
  a_content :: anthropic_content

definition anthropic_placeholder :: string where
  "anthropic_placeholder =
     ''NOTE: This tool output is only a placeholder. See the following parts of this message for the actual tool result. Please use that for processing.''"

text \<open>
  \<open>await Promise.all(contentParts.map(async (block) => { convertedBlocks.push(await
  convert(block, resolver)) }))\<close>: rejected when a conversion is rejected; otherwise the
  converted blocks in the order the conversions complete.
\<close>

definition anthropic_convertedBlocks ::
  "platform \<Rightarrow> tool \<Rightarrow> jsval list \<Rightarrow> error + FinalContentBlock list" where
  "anthropic_convertedBlocks p t contentParts =
     (case those (map (convert p (resolveResource p t)) contentParts) of
        None \<Rightarrow> Inl ConversionRejected
      | Some bs \<Rightarrow> Inr (in_completion_order (completion p) bs))"

text \<open>
  \<open>if (content) { result[0].content.unshift({ type: 'text', text: content }) }\<close>: the blocks
  put in front of the \<open>tool_use\<close> block. The optional argument is \<open>None\<close> when not given.
\<close>

definition unshifted :: "string option \<Rightarrow> block list" where
  "unshifted pre =
     (case pre of
        None \<Rightarrow> []
      | Some c \<Rightarrow> if c \<noteq> [] then [TextBlock (Some c)] else [])"

definition anthropic_result :: "tool \<Rightarrow> string option \<Rightarrow> block list \<Rightarrow> anthropic_message list" where
  "anthropic_result t pre parts =
     [\<lparr>a_role = ''assistant'',
       a_content = Blocks
         (unshifted pre
          @ [ToolUse (tool_id t) (tool_name t) (or_empty_object (tool_args t))])\<rparr>,
      \<lparr>a_role = ''user'', a_content = Blocks parts\<rparr>]"

definition anthropic_makeToolMessages ::
  "platform \<Rightarrow> tool \<Rightarrow> jsval \<Rightarrow> string option \<Rightarrow> error + anthropic_message list" where
  "anthropic_makeToolMessages p t toolResult pre =
     (let parts0 = (case toolResult of JStr s \<Rightarrow> [ToolResult (tool_id t) (Some s)] | _ \<Rightarrow> [])
      in if nullish toolResult then Inl TypeError
         else
           let isError = truthy (js_prop toolResult ''isError'');
               parts1 = parts0 @
                 (if isError
                  then [ToolResult (tool_id t) (JSON_stringify p (js_prop toolResult ''error''))]
                  else [])
           in if \<not> isError \<and> truthy (js_prop toolResult ''content'')
              then
                (case anthropic_convertedBlocks p t
                        (array_or_empty (js_prop toolResult ''content'')) of
                   Inl e \<Rightarrow> Inl e
                 | Inr convertedBlocks \<Rightarrow>
                     if list_all (\<lambda>item. block_type item = ''text'') convertedBlocks
                     then Inr (anthropic_result t pre (parts1 @
                            [ToolResult (tool_id t)
                               (Some (join_opt (newline @ newline @ newline)
                                        (map block_text convertedBlocks)))]))
                     else Inr (anthropic_result t pre (parts1 @
                            ToolResult (tool_id t) (Some anthropic_placeholder)
                            # map (\<lambda>item. Legacy (contentBlockToLegacyMessageContent p item))
                                convertedBlocks)))
              else Inr (anthropic_result t pre parts1))"

section \<open>Ollama: tool messages\<close>

definition ollama_placeholder :: string where
  "ollama_placeholder =
     ''NOTE: This tool output is only a placeholder. The actual result from the tool is included in the next message with role ''
     @ [CHR 0x22] @ ''user'' @ [CHR 0x22] @ ''. Please use that for processing.''"

text \<open>\<open>await Promise.all(content.map((block) => convert(block, resolver)))\<close>: the results in the order of the input.\<close>

definition ollama_convertedBlocks ::
  "platform \<Rightarrow> tool \<Rightarrow> jsval list \<Rightarrow> error + FinalContentBlock list" where
  "ollama_convertedBlocks p t contentParts =
     (case those (map (convert p (resolveResource p t)) contentParts) of
        None \<Rightarrow> Inl ConversionRejected
      | Some bs \<Rightarrow> Inr bs)"

definition ollama_result ::
  "tool \<Rightarrow> content_part list \<Rightarrow> message option \<Rightarrow> message list" where
  "ollama_result t toolMessageContent supplement =
     [\<lparr>role = ''assistant'', content = CNone, name = None,
       tool_calls = JArr [JObj [(''id'', JStr (tool_id t)),
                                (''type'', JStr ''function''),
                                (''function'', JObj [(''arguments'', tool_args t),
                                                     (''name'', JStr (tool_name t))])]],
       tool_call_id = None, images = None\<rparr>,
      \<lparr>role = ''tool'', content = CArray toolMessageContent, name = Some (tool_name t),
       tool_calls = JUndefined, tool_call_id = Some (tool_id t), images = None\<rparr>]
     @ (case supplement of None \<Rightarrow> [] | Some s \<Rightarrow> [s])"

definition ollama_makeToolMessages ::
  "platform \<Rightarrow> tool \<Rightarrow> jsval \<Rightarrow> error + message list" where
  "ollama_makeToolMessages p t toolResult =
     (let content0 = (case toolResult of JStr s \<Rightarrow> [text_part (Some s)] | _ \<Rightarrow> [])
      in if nullish toolResult then Inl TypeError
         else
           let isError = truthy (js_prop toolResult ''isError'');
               content1 = content0 @
                 (if isError
                  then [text_part (JSON_stringify p (js_prop toolResult ''error''))]
                  else [])
           in if \<not> isError \<and> truthy (js_prop toolResult ''content'')
              then
                (case ollama_convertedBlocks p t
                        (array_or_empty (js_prop toolResult ''content'')) of
                   Inl e \<Rightarrow> Inl e
                 | Inr convertedBlocks \<Rightarrow>
                     if list_all (\<lambda>item. block_type item = ''text'') convertedBlocks
                     then Inr (ollama_result t
                            (content1 @ map (contentBlockToLegacyMessageContent p) convertedBlocks)
                            None)
                     else Inr (ollama_result t
                            (content1 @
                               [text_part (JSON_stringify p
                                  (JObj [(''message'', JStr ollama_placeholder)]))])
                            (Some \<lparr>role = ''user'',
                                   content = CArray (map (contentBlockToLegacyMessageContent p)
                                                       convertedBlocks),
                                   name = None, tool_calls = JUndefined,
                                   tool_call_id = None, images = None\<rparr>)))
              else Inr (ollama_result t content1 None))"

section \<open>Chat context, service state and the web platform\<close>

text \<open>
  \<open>IChatMessage\<close>, a persisted turn of the conversation. \<open>structuredPrompts\<close> is a JSON
  string or absent.
\<close>

record chat_message =
  prompt :: string
  reply :: string
  structuredPrompts :: "string option"

text \<open>\<open>StructuredPrompt\<close>: a role and a content.\<close>

record structured_prompt =
  sp_role :: string
  sp_content :: msg_content

text \<open>
  The chat context (\<open>IChatContext\<close>) and the state of the base service
  (\<open>NextChatService\<close>: \<open>getModelName()\<close>, \<open>isToolsEnabled()\<close>, \<open>usedToolNames\<close>), as read
  by the adapters. \<open>getMaxTokens\<close> and \<open>getSystemMessage\<close> are \<open>None\<close> when they return
  \<open>undefined\<close> or \<open>null\<close>.
\<close>

record chat_context =
  vision_enabled :: bool
  getCtxMessages :: "string option \<Rightarrow> chat_message list"
  getTemperature :: real
  getSystemMessage :: "string option"
  getMaxTokens :: "int option"
  getModelName :: string
  isToolsEnabled :: bool
  usedToolNames :: "string list"

text \<open>An item of \<open>splitByImg\<close>: \<open>{type, dataType, mimeType, data}\<close>.\<close>

record prompt_item =
  i_type :: string
  i_dataType :: "string option"
  i_mimeType :: "string option"
  i_data :: string

text \<open>\<open>IMCPTool\<close>, a tool of the tool host, and the tool schema sent to Anthropic.\<close>

record mcp_tool =
  mt_name :: string
  mt_description :: jsval
  mt_schema_type :: jsval
  mt_schema_properties :: jsval
  mt_schema_required :: jsval

record anthropic_tool =
  at_name :: string
  at_description :: jsval
  at_schema_type :: jsval
  at_schema_properties :: jsval
  at_schema_required :: jsval

text \<open>
  The helpers of \<open>utils/util\<close> and \<open>utils/validators\<close>, the browser and the tool host.
  A function that returns a promise gives \<open>None\<close> when the promise is rejected (for the
  ones called inside \<open>try\<close>, when anything inside the \<open>try\<close> throws).
  \<^item> \<open>fetchDataURL url\<close>: \<open>fetch\<close>, \<open>blob()\<close> and \<open>FileReader.readAsDataURL\<close>.
  \<^item> \<open>fetchBytes url\<close>: \<open>fetch\<close> and \<open>arrayBuffer()\<close>, as the list of the bytes.
  \<^item> \<open>parseStructuredPrompts\<close>: \<open>JSON.parse\<close> at type \<open>StructuredPrompt[]\<close>; \<open>None\<close> when it throws.
  \<^item> \<open>stringifyContent\<close>: \<open>JSON.stringify\<close> of a message content.
  \<^item> \<open>listTools\<close>: \<open>Inl\<close> a rejected promise, \<open>Inr None\<close> a falsy result, \<open>Inr (Some ts)\<close>
    the result \<open>{tools: ts}\<close>.
\<close>

record web =
  splitByImg :: "string \<Rightarrow> prompt_item list"
  getBase64 :: "string \<Rightarrow> string option"
  stripHtmlTags :: "string \<Rightarrow> string"
  fetchDataURL :: "string \<Rightarrow> string option"
  fetchBytes :: "string \<Rightarrow> nat list option"
  btoa :: "string \<Rightarrow> string"
  parseStructuredPrompts :: "string \<Rightarrow> structured_prompt list option"
  stringifyContent :: "msg_content \<Rightarrow> string option"
  isBlank :: "string option \<Rightarrow> bool"
  removeAdditionalProperties :: "jsval \<Rightarrow> jsval"
  listTools :: "error + mcp_tool list option"

section \<open>Anthropic: prompt content\<close>

text \<open>
  One item of the prompt. The callback is \<open>async\<close>: an unknown item type rejects at once,
  a failed \<open>getBase64\<close> rejects later.
\<close>

definition anthropic_convertItem :: "web \<Rightarrow> prompt_item \<Rightarrow> error + block" where
  "anthropic_convertItem w item =
     (if i_type item = ''image'' then
        (if i_dataType item = Some ''URL'' then
           (case getBase64 w (i_data item) of
              None \<Rightarrow> Inl FetchRejected
            | Some d \<Rightarrow> Inr (ImageBlock (Base64Source (i_mimeType item) (Some d))))
         else Inr (ImageBlock (Base64Source (i_mimeType item)
                                 (split_comma_second (i_data item)))))
      else if i_type item = ''text'' then Inr (TextBlock (Some (i_data item)))
      else Inl UnknownMessageType)"

text \<open>
  \<open>Promise.all\<close>: rejected with the rejection that happens first, otherwise the results
  in the order of the input.
\<close>

fun results_of :: "(error + 'a) list \<Rightarrow> 'a list" where
  "results_of [] = []"
| "results_of (Inl e # rs) = results_of rs"
| "results_of (Inr x # rs) = x # results_of rs"

fun errors_of :: "(error + 'a) list \<Rightarrow> error list" where
  "errors_of [] = []"
| "errors_of (Inl e # rs) = e # errors_of rs"
| "errors_of (Inr x # rs) = errors_of rs"

definition promise_all :: "(error + 'a) list \<Rightarrow> error + 'a list" where
  "promise_all rs =
     (case filter (\<lambda>e. e = UnknownMessageType) (errors_of rs) @ errors_of rs of
        [] \<Rightarrow> Inr (results_of rs)
      | e # _ \<Rightarrow> Inl e)"

definition anthropic_convertPromptContent ::
  "chat_context \<Rightarrow> web \<Rightarrow> string \<Rightarrow> error + anthropic_content" where
  "anthropic_convertPromptContent ctx w c =
     (if vision_enabled ctx
      then (case promise_all (map (anthropic_convertItem w) (splitByImg w c)) of
              Inl e \<Rightarrow> Inl e
            | Inr bs \<Rightarrow> Inr (Blocks bs))
      else Inr (Text (stripHtmlTags w c)))"

section \<open>Anthropic: messages\<close>

text \<open>
  An element of the array returned by \<open>makeMessages\<close>: a message \<open>{role, content}\<close> built
  by the adapter, the object \<open>{content, type: 'tool_result', tool_use_id}\<close> built for a
  message of role \<open>tool\<close>, or a message of the caller or of the history passed as it is.
\<close>

datatype entry =
    Converted anthropic_message
  | ToolResultEntry "string option" "string option"
  | Passed message

definition plain_message :: "string \<Rightarrow> msg_content \<Rightarrow> message" where
  "plain_message r c =
     \<lparr>role = r, content = c, name = None, tool_calls = JUndefined,
      tool_call_id = None, images = None\<rparr>"

text \<open>The history: the reducer over \<open>getCtxMessages(msgId)\<close>.\<close>

definition history_of :: "web \<Rightarrow> chat_message \<Rightarrow> error + message list" where
  "history_of w msg =
     (case (case structuredPrompts msg of
              Some sp \<Rightarrow>
                if sp \<noteq> []
                then (case parseStructuredPrompts w sp of
                        None \<Rightarrow> Inl StructuredPromptsParseError
                      | Some ps \<Rightarrow> Inr (map (\<lambda>m. plain_message (sp_role m) (sp_content m)) ps))
                else Inr [plain_message ''user'' (CString (prompt msg))]
            | None \<Rightarrow> Inr [plain_message ''user'' (CString (prompt msg))]) of
        Inl e \<Rightarrow> Inl e
      | Inr msgs \<Rightarrow> Inr (msgs @ [plain_message ''assistant'' (CString (reply msg))]))"

fun history :: "web \<Rightarrow> chat_message list \<Rightarrow> error + message list" where
  "history w [] = Inr []"
| "history w (msg # rest) =
     (case history_of w msg of
        Inl e \<Rightarrow> Inl e
      | Inr msgs \<Rightarrow> (case history w rest of Inl e \<Rightarrow> Inl e | Inr acc \<Rightarrow> Inr (msgs @ acc)))"

text \<open>
  One part of an array content: the block it becomes and what \<open>debug\<close> is called with.
\<close>

definition anthropic_convertPart :: "content_part \<Rightarrow> string list \<times> block" where
  "anthropic_convertPart item =
     (if c_type item = ''text'' then ([], TextBlock (c_text item))
      else if c_type item = ''image_url''
      then ([], ImageBlock (UrlSource (case c_image_url item of None \<Rightarrow> [] | Some u \<Rightarrow> u)))
      else if c_type item = ''audio''
      then ([''Warning: Audio content type not supported, converting to empty text''],
            TextBlock (Some []))
      else ([''Warning: Unknown content type '' @ [CHR 0x27] @ c_type item @ [CHR 0x27]
               @ '', converting to empty text''],
            TextBlock (Some [])))"

text \<open>One message of the caller: the debug output and the element it becomes.\<close>

definition anthropic_processMessage ::
  "chat_context \<Rightarrow> web \<Rightarrow> message \<Rightarrow> string list \<times> (error + entry)" where
  "anthropic_processMessage ctx w msg =
     (if role msg = ''tool''
      then ([], Inr (ToolResultEntry (stringifyContent w (content msg)) (tool_call_id msg)))
      else if role msg = ''assistant'' \<and> truthy (tool_calls msg)
      then ([], Inr (Passed msg))
      else
        (case content msg of
           CString c \<Rightarrow>
             ([], case anthropic_convertPromptContent ctx w c of
                    Inl e \<Rightarrow> Inl e
                  | Inr c' \<Rightarrow> Inr (Converted \<lparr>a_role = role msg, a_content = c'\<rparr>))
         | CArray items \<Rightarrow>
             (concat (map (\<lambda>item. fst (anthropic_convertPart item)) items),
              Inr (Converted \<lparr>a_role = role msg,
                     a_content = Blocks (map (\<lambda>item. snd (anthropic_convertPart item)) items)\<rparr>))
         | CNone \<Rightarrow> ([], Inr (Converted \<lparr>a_role = role msg, a_content = Text []\<rparr>))))"

definition anthropic_makeMessages ::
  "chat_context \<Rightarrow> web \<Rightarrow> message list \<Rightarrow> string option \<Rightarrow> string list \<times> (error + entry list)" where
  "anthropic_makeMessages ctx w messages msgId =
     (case history w (getCtxMessages ctx msgId) of
        Inl e \<Rightarrow> ([], Inl e)
      | Inr result \<Rightarrow>
          (concat (map (\<lambda>msg. fst (anthropic_processMessage ctx w msg)) messages),
           case promise_all (map (\<lambda>msg. snd (anthropic_processMessage ctx w msg)) messages) of
             Inl e \<Rightarrow> Inl e
           | Inr processedMessages \<Rightarrow> Inr (map Passed result @ processedMessages)))"

section \<open>Anthropic: payload\<close>

record tool_choice =
  tc_type :: string
  disable_parallel_tool_use :: bool

text \<open>\<open>IChatRequestPayload\<close>; \<open>None\<close> is a key that the payload does not have.\<close>

record payload =
  model :: string
  messages :: "entry list"
  temperature :: real
  stream :: bool
  system :: "string option"
  max_tokens :: "int option"
  tools :: "anthropic_tool list option"
  tool_choice :: "tool_choice option"

text \<open>\<open>x || d\<close>\<close>

definition or_else :: "jsval \<Rightarrow> jsval \<Rightarrow> jsval" where
  "or_else x d = (if truthy x then x else d)"

definition makeTool :: "web \<Rightarrow> mcp_tool \<Rightarrow> anthropic_tool" where
  "makeTool w t =
     \<lparr>at_name = mt_name t,
      at_description = mt_description t,
      at_schema_type = mt_schema_type t,
      at_schema_properties =
        or_else (removeAdditionalProperties w (mt_schema_properties t)) (JObj []),
      at_schema_required = or_else (mt_schema_required t) (JArr [])\<rparr>"

text \<open>
  \<open>tools.tools.filter((tool) => !this.usedToolNames.includes(tool.name)).map((tool) =>
  this.makeTool(tool))\<close>
\<close>

definition unusedTools :: "chat_context \<Rightarrow> web \<Rightarrow> mcp_tool list \<Rightarrow> anthropic_tool list" where
  "unusedTools ctx w ts =
     map (makeTool w) (filter (\<lambda>t. mt_name t \<notin> set (usedToolNames ctx)) ts)"

text \<open>\<open>if (this.context.getMaxTokens()) payload.max_tokens = this.context.getMaxTokens()\<close>\<close>

definition with_max_tokens :: "chat_context \<Rightarrow> payload \<Rightarrow> payload" where
  "with_max_tokens ctx pl =
     (case getMaxTokens ctx of
        None \<Rightarrow> pl
      | Some n \<Rightarrow> if n \<noteq> 0 then pl\<lparr>max_tokens := Some n\<rparr> else pl)"

definition with_tools :: "chat_context \<Rightarrow> web \<Rightarrow> payload \<Rightarrow> error + payload" where
  "with_tools ctx w pl =
     (if isToolsEnabled ctx
      then (case listTools w of
              Inl e \<Rightarrow> Inl e
            | Inr None \<Rightarrow> Inr pl
            | Inr (Some ts) \<Rightarrow>
                if length (unusedTools ctx w ts) > 0
                then Inr (pl\<lparr>tools := Some (unusedTools ctx w ts),
                              tool_choice := Some \<lparr>tc_type = ''auto'',
                                                   disable_parallel_tool_use = True\<rparr>\<rparr>)
                else Inr pl)
      else Inr pl)"

definition makePayload ::
  "chat_context \<Rightarrow> web \<Rightarrow> message list \<Rightarrow> string option \<Rightarrow> string list \<times> (error + payload)" where
  "makePayload ctx w msgs msgId =
     (case anthropic_makeMessages ctx w msgs msgId of
        (logged, Inl e) \<Rightarrow> (logged, Inl e)
      | (logged, Inr ms) \<Rightarrow>
          (let payload0 = \<lparr>model = getModelName ctx, messages = ms,
                            temperature = getTemperature ctx, stream = True,
                            system = None, max_tokens = None, tools = None,
                            tool_choice = None\<rparr>;
               payload1 = (if \<not> isBlank w (getSystemMessage ctx)
                           then payload0\<lparr>system := getSystemMessage ctx\<rparr> else payload0);
               payload2 = with_max_tokens ctx payload1
           in (logged, case with_tools ctx w payload2 of
                      Inl e \<Rightarrow> Inl e
                    | Inr payload3 \<Rightarrow> Inr (with_max_tokens ctx payload3))))"

section \<open>Ollama: prompt content\<close>

text \<open>
  The result \<open>{content, images?}\<close>. An element of \<open>images\<close> is \<open>None\<close> when it is
  \<open>undefined\<close> (a data URL without a comma).
\<close>

record ollama_prompt =
  op_content :: string
  op_images :: "string option list option"

text \<open>
  \<open>const base64Data = i.data.split(','); if (base64Data.length < 2) return i.data;
  return base64Data[1]\<close>
\<close>

definition localImage :: "prompt_item \<Rightarrow> string" where
  "localImage i =
     (let base64Data = split_comma (i_data i)
      in if length base64Data < 2 then i_data i else base64Data ! 1)"

text \<open>
  The remote image of an item: \<open>None\<close> is the \<open>null\<close> returned by the \<open>catch\<close>,
  \<open>Some x\<close> the value of \<open>base64.split(',')[1]\<close>.
\<close>

definition remoteImage :: "web \<Rightarrow> prompt_item \<Rightarrow> string option option" where
  "remoteImage w item =
     (case fetchDataURL w (i_data item) of
        None \<Rightarrow> None
      | Some base64 \<Rightarrow> Some (split_comma_second base64))"

definition ollama_convertPromptContent :: "chat_context \<Rightarrow> web \<Rightarrow> string \<Rightarrow> ollama_prompt" where
  "ollama_convertPromptContent ctx w c =
     (if vision_enabled ctx then
        (let items = splitByImg w c;
             textItems = filter (\<lambda>item. i_type item = ''text'') items;
             textContent = join newline (map i_data textItems);
             imageItems = filter (\<lambda>item. i_type item = ''image'') items;
             localImages = map localImage
                             (filter (\<lambda>item. i_dataType item = Some ''base64'') imageItems);
             remoteImageItems = filter (\<lambda>item. i_dataType item = Some ''URL'') items
         in if length remoteImageItems > 0 then
              (let base64Images = map (remoteImage w) remoteImageItems;
                   validBase64Images = map the (filter (\<lambda>img. img \<noteq> None) base64Images)
               in if length validBase64Images > 0
                  then \<lparr>op_content = textContent,
                        op_images = Some (map Some localImages @ validBase64Images)\<rparr>
                  else \<lparr>op_content = textContent, op_images = None\<rparr>)
            else if length localImages > 0
            then \<lparr>op_content = textContent, op_images = Some (map Some localImages)\<rparr>
            else \<lparr>op_content = textContent, op_images = None\<rparr>)
      else \<lparr>op_content = stripHtmlTags w c, op_images = None\<rparr>)"

section \<open>Ollama: messages\<close>







section \<open>DeepSeek: messages\<close>

text \<open>The callback of \<open>result.map\<close>; \<open>None\<close> is \<open>null\<close>.\<close>

definition deepseek_format :: "message \<Rightarrow> message option" where
  "deepseek_format msg =
     (case content msg of
        CString c \<Rightarrow> Some msg
      | CArray parts \<Rightarrow>
          Some (msg\<lparr>content := CString
                  (join newline
                     (map (\<lambda>part. case c_text part of None \<Rightarrow> [] | Some t \<Rightarrow> t) parts))\<rparr>)
      | CNone \<Rightarrow> None)"

definition deepseek_makeMessages ::
  "(message list \<Rightarrow> string option \<Rightarrow> error + message list)
     \<Rightarrow> message list \<Rightarrow> string option \<Rightarrow> error + message list" where
  "deepseek_makeMessages super msgs msgId =
     (case super msgs msgId of
        Inl e \<Rightarrow> Inl e
      | Inr result \<Rightarrow>
          Inr (map the (filter (\<lambda>m. m \<noteq> None) (map deepseek_format result))))"

section \<open>Example inputs\<close>

text \<open>
  Concrete inputs on which the theorems below are run. The platform functions of the
  examples are given on the values the examples use: \<open>example_stringify\<close> is
  \<open>JSON.stringify\<close> on the two values it lists, \<open>example_convert\<close> keeps the type and the
  text of a block, and \<open>example_legacy\<close> turns an image block into an \<open>image_url\<close> part.
\<close>

definition example_tool :: tool where
  "example_tool =
     \<lparr>tool_id = ''toolu_01'', tool_name = ''files--read_file'',
      tool_args = JObj [(''path'', JStr ''notes.txt'')]\<rparr>"

definition ollama_placeholder_json :: string where
  "ollama_placeholder_json =
     ''{'' @ [CHR 0x22] @ ''message'' @ [CHR 0x22] @ '':'' @ [CHR 0x22]
     @ ''NOTE: This tool output is only a placeholder. The actual result from the tool is included in the next message with role ''
     @ [CHR 0x5C, CHR 0x22] @ ''user'' @ [CHR 0x5C, CHR 0x22]
     @ ''. Please use that for processing.'' @ [CHR 0x22] @ ''}''"

definition example_stringify :: "jsval \<Rightarrow> string option" where
  "example_stringify v =
     (if v = JStr ''ENOENT'' then Some ([CHR 0x22] @ ''ENOENT'' @ [CHR 0x22])
      else if v = JObj [(''message'', JStr ollama_placeholder)] then Some ollama_placeholder_json
      else None)"

definition example_convert ::
  "(string \<Rightarrow> jsval option) \<Rightarrow> jsval \<Rightarrow> FinalContentBlock option" where
  "example_convert resolve b =
     (case js_prop b ''type'' of
        JStr ty \<Rightarrow>
          Some \<lparr>block_type = ty,
                block_text = (case js_prop b ''text'' of JStr s \<Rightarrow> Some s | _ \<Rightarrow> None),
                block_payload = b\<rparr>
      | _ \<Rightarrow> None)"

definition example_legacy :: "FinalContentBlock \<Rightarrow> content_part" where
  "example_legacy b =
     (if block_type b = ''text'' then text_part (block_text b)
      else \<lparr>c_type = ''image_url'', c_text = None,
            c_image_url = (case js_prop (block_payload b) ''data'' of
                             JStr d \<Rightarrow> Some (''data:image/png;base64,'' @ d)
                           | _ \<Rightarrow> None),
            c_images = None\<rparr>)"

definition example_platform :: platform where
  "example_platform =
     \<lparr>JSON_stringify = example_stringify,
      convert = example_convert,
      contentBlockToLegacyMessageContent = example_legacy,
      readResource = (\<lambda>server uri. None),
      completion = (\<lambda>i. 0)\<rparr>"

definition text_result :: jsval where
  "text_result =
     JObj [(''isError'', JBool False),
           (''content'', JArr [JObj [(''type'', JStr ''text''), (''text'', JStr ''hello'')]])]"

definition image_result :: jsval where
  "image_result =
     JObj [(''content'',
            JArr [JObj [(''type'', JStr ''text''), (''text'', JStr ''a chart'')],
                  JObj [(''type'', JStr ''image''), (''data'', JStr ''iVBORw0KGgo=''),
                        (''mimeType'', JStr ''image/png'')]])]"

definition error_result :: jsval where
  "error_result = JObj [(''isError'', JBool True), (''error'', JStr ''ENOENT'')]"

definition example_prompt :: string where
  "example_prompt = ''Compare <img src=data:image/png;base64,AAAA> with <img src=https://example.com/b.png>''"

definition example_items :: "prompt_item list" where
  "example_items =
     [\<lparr>i_type = ''text'', i_dataType = None, i_mimeType = None, i_data = ''Compare ''\<rparr>,
      \<lparr>i_type = ''image'', i_dataType = Some ''base64'', i_mimeType = Some ''image/png'',
       i_data = ''data:image/png;base64,AAAA''\<rparr>,
      \<lparr>i_type = ''text'', i_dataType = None, i_mimeType = None, i_data = '' with ''\<rparr>,
      \<lparr>i_type = ''image'', i_dataType = Some ''URL'', i_mimeType = Some ''image/png'',
       i_data = ''https://example.com/b.png''\<rparr>]"

definition example_tools :: "mcp_tool list" where
  "example_tools =
     [\<lparr>mt_name = ''files--read_file'', mt_description = JStr ''Read a file'',
       mt_schema_type = JStr ''object'',
       mt_schema_properties = JObj [(''path'', JObj [(''type'', JStr ''string'')])],
       mt_schema_required = JArr [JStr ''path'']\<rparr>,
      \<lparr>mt_name = ''files--list'', mt_description = JStr ''List a directory'',
       mt_schema_type = JStr ''object'',
       mt_schema_properties = JUndefined,
       mt_schema_required = JUndefined\<rparr>]"

text \<open>
  A web platform without network: every fetch fails. \<open>splitByImg\<close> is given on
  \<open>example_prompt\<close> and on prompts without images, \<open>stringifyContent\<close> on the string
  \<open>42\<close>; \<open>btoa\<close> is never reached.
\<close>

definition offline_web :: web where
  "offline_web =
     \<lparr>splitByImg = (\<lambda>c. if c = example_prompt then example_items
                         else [\<lparr>i_type = ''text'', i_dataType = None, i_mimeType = None, i_data = c\<rparr>]),
      getBase64 = (\<lambda>url. None),
      stripHtmlTags = (\<lambda>c. c),
      fetchDataURL = (\<lambda>url. None),
      fetchBytes = (\<lambda>url. None),
      btoa = (\<lambda>binary. []),
      parseStructuredPrompts = (\<lambda>s. None),
      stringifyContent = (\<lambda>c. if c = CString ''42'' then Some ([CHR 0x22] @ ''42'' @ [CHR 0x22]) else None),
      isBlank = (\<lambda>s. case s of None \<Rightarrow> True | Some t \<Rightarrow> list_all (\<lambda>c. c = CHR '' '') t),
      removeAdditionalProperties = (\<lambda>v. v),
      listTools = Inr (Some example_tools)\<rparr>"

definition example_context :: chat_context where
  "example_context =
     \<lparr>vision_enabled = True,
      getCtxMessages = (\<lambda>msgId. [\<lparr>prompt = ''Hi'', reply = ''Hello!'', structuredPrompts = None\<rparr>]),
      getTemperature = 0.7,
      getSystemMessage = Some ''You are helpful.'',
      getMaxTokens = Some 1024,
      getModelName = ''claude-3-5-sonnet'',
      isToolsEnabled = True,
      usedToolNames = [''files--list'']\<rparr>"

definition passthrough :: "message list \<Rightarrow> string option \<Rightarrow> error + message list" where
  "passthrough msgs msgId = Inr msgs"

text \<open>A user message with a text part and an audio part.\<close>

definition audio_part :: content_part where
  "audio_part = \<lparr>c_type = ''audio'', c_text = None, c_image_url = None, c_images = None\<rparr>"


definition tool_message :: message where
  "tool_message =
     \<lparr>role = ''tool'', content = CString ''42'', name = Some ''calc--add'',
      tool_calls = JUndefined, tool_call_id = Some ''call_1'', images = None\<rparr>"







section \<open>The claims' own words\<close>

text \<open>
  The DeepSeek output as the claim describes it: a string content is kept, an array
  content becomes the texts of its parts (the empty string for a part without text) joined
  by newlines, any other message is dropped.
\<close>

fun deepseek_flattened :: "message list \<Rightarrow> message list" where
  "deepseek_flattened [] = []"
| "deepseek_flattened (m # ms) =
     (case content m of
        CString s \<Rightarrow> m # deepseek_flattened ms
      | CArray parts \<Rightarrow>
          m\<lparr>content := CString
               (join newline (map (\<lambda>part. case c_text part of None \<Rightarrow> [] | Some t \<Rightarrow> t) parts))\<rparr>
          # deepseek_flattened ms
      | CNone \<Rightarrow> deepseek_flattened ms)"




definition question :: "message list" where
  "question = [plain_message ''user'' (CString ''What is in notes.txt?'')]"

definition example_payload :: payload where
  "example_payload =
     \<lparr>model = ''claude-3-5-sonnet'',
      messages =
        [Passed (plain_message ''user'' (CString ''Hi'')),
         Passed (plain_message ''assistant'' (CString ''Hello!'')),
         Converted \<lparr>a_role = ''user'',
                     a_content = Blocks [TextBlock (Some ''What is in notes.txt?'')]\<rparr>],
      temperature = 0.7, stream = True,
      system = Some ''You are helpful.'', max_tokens = Some 1024,
      tools =
        Some [\<lparr>at_name = ''files--read_file'', at_description = JStr ''Read a file'',
               at_schema_type = JStr ''object'',
               at_schema_properties = JObj [(''path'', JObj [(''type'', JStr ''string'')])],
               at_schema_required = JArr [JStr ''path'']\<rparr>],
      tool_choice = Some \<lparr>tc_type = ''auto'', disable_parallel_tool_use = True\<rparr>\<rparr>"

section \<open>Tool messages: theorems\<close>

lemma mset_in_completion_order: "mset (in_completion_order c xs) = mset xs"
proof -
  have "mset (in_completion_order c xs) =
        image_mset snd (mset (sort_key (\<lambda>ix. c (fst ix)) (enumerate 0 xs)))"
    by (simp add: in_completion_order_def)
  also have "\<dots> = image_mset snd (mset (enumerate 0 xs))"
    by (simp only: mset_sort)
  also have "\<dots> = mset (map snd (enumerate 0 xs))"
    by (simp only: mset_map)
  also have "\<dots> = mset xs"
    by (simp only: map_snd_enumerate)
  finally show ?thesis .
qed

lemma list_all_in_completion_order:
  "list_all P (in_completion_order c xs) = list_all P xs"
proof -
  have "set (in_completion_order c xs) = set xs"
    using mset_in_completion_order [of c xs] by (metis set_mset_mset)
  then show ?thesis by (simp add: list_all_iff)
qed

lemma in_completion_order_single: "in_completion_order c [x] = [x]"
  by (simp add: in_completion_order_def)

text \<open>
  Claim C1. Take a tool result that is not an error and whose content is an array, all of
  whose blocks are converted, not all of them to text blocks. The Anthropic adapter
  returns two messages: the assistant message, and one user message whose content array
  is the placeholder \<open>tool_result\<close> block followed by the legacy form of every converted
  block (all of them, in the order the conversions completed). The Ollama adapter returns
  three messages: the assistant message, the tool message holding only the placeholder,
  and a supplemental user message whose content is the legacy form of the converted
  blocks.
\<close>

theorem rich_tool_result_messages:
  assumes "js_prop toolResult ''content'' = JArr bs"
      and "\<not> truthy (js_prop toolResult ''isError'')"
      and "those (map (convert p (resolveResource p t)) bs) = Some cbs"
      and "\<not> list_all (\<lambda>item. block_type item = ''text'') cbs"
  shows "anthropic_makeToolMessages p t toolResult pre =
           Inr [\<lparr>a_role = ''assistant'',
                 a_content = Blocks (unshifted pre @
                   [ToolUse (tool_id t) (tool_name t) (or_empty_object (tool_args t))])\<rparr>,
                \<lparr>a_role = ''user'',
                 a_content = Blocks
                   (ToolResult (tool_id t) (Some anthropic_placeholder)
                    # map (\<lambda>item. Legacy (contentBlockToLegacyMessageContent p item))
                        (in_completion_order (completion p) cbs))\<rparr>]
         \<and> mset (in_completion_order (completion p) cbs) = mset cbs
         \<and> ollama_makeToolMessages p t toolResult =
           Inr [\<lparr>role = ''assistant'', content = CNone, name = None,
                 tool_calls = JArr [JObj [(''id'', JStr (tool_id t)),
                                          (''type'', JStr ''function''),
                                          (''function'', JObj [(''arguments'', tool_args t),
                                                               (''name'', JStr (tool_name t))])]],
                 tool_call_id = None, images = None\<rparr>,
                \<lparr>role = ''tool'',
                 content = CArray [text_part (JSON_stringify p
                                     (JObj [(''message'', JStr ollama_placeholder)]))],
                 name = Some (tool_name t), tool_calls = JUndefined,
                 tool_call_id = Some (tool_id t), images = None\<rparr>,
                \<lparr>role = ''user'',
                 content = CArray (map (contentBlockToLegacyMessageContent p) cbs),
                 name = None, tool_calls = JUndefined, tool_call_id = None, images = None\<rparr>]"
proof -
  have nn: "\<not> nullish toolResult" "\<And>s. toolResult \<noteq> JStr s"
    using assms(1) by (cases toolResult; simp)+
  have cb: "anthropic_convertedBlocks p t bs = Inr (in_completion_order (completion p) cbs)"
    using assms(3) by (simp add: anthropic_convertedBlocks_def)
  have na: "\<not> list_all (\<lambda>item. block_type item = ''text'')
               (in_completion_order (completion p) cbs)"
    using assms(4) by (simp add: list_all_in_completion_order)
  have anthropic: "anthropic_makeToolMessages p t toolResult pre =
      Inr (anthropic_result t pre
             (ToolResult (tool_id t) (Some anthropic_placeholder)
              # map (\<lambda>item. Legacy (contentBlockToLegacyMessageContent p item))
                  (in_completion_order (completion p) cbs)))"
    using nn assms(1,2) cb na
    by (cases toolResult) (simp_all add: anthropic_makeToolMessages_def)
  have cbo: "ollama_convertedBlocks p t bs = Inr cbs"
    using assms(3) by (simp add: ollama_convertedBlocks_def)
  have ollama: "ollama_makeToolMessages p t toolResult =
      Inr (ollama_result t
             [text_part (JSON_stringify p (JObj [(''message'', JStr ollama_placeholder)]))]
             (Some \<lparr>role = ''user'',
                    content = CArray (map (contentBlockToLegacyMessageContent p) cbs),
                    name = None, tool_calls = JUndefined, tool_call_id = None,
                    images = None\<rparr>))"
    using nn assms(1,2,4) cbo
    by (cases toolResult) (simp_all add: ollama_makeToolMessages_def)
  show ?thesis
    using anthropic ollama mset_in_completion_order [of "completion p" cbs]
    by (simp add: anthropic_result_def ollama_result_def)
qed

theorem rich_tool_result_messages_witness:
  "anthropic_makeToolMessages example_platform example_tool image_result None =
     Inr [\<lparr>a_role = ''assistant'',
           a_content = Blocks [ToolUse ''toolu_01'' ''files--read_file''
                                 (JObj [(''path'', JStr ''notes.txt'')])]\<rparr>,
          \<lparr>a_role = ''user'',
           a_content = Blocks
             [ToolResult ''toolu_01'' (Some anthropic_placeholder),
              Legacy (text_part (Some ''a chart'')),
              Legacy \<lparr>c_type = ''image_url'', c_text = None,
                      c_image_url = Some ''data:image/png;base64,iVBORw0KGgo='',
                      c_images = None\<rparr>]\<rparr>]
   \<and> map role (projr (ollama_makeToolMessages example_platform example_tool image_result))
       = [''assistant'', ''tool'', ''user'']
   \<and> map content (projr (ollama_makeToolMessages example_platform example_tool image_result))
       = [CNone,
          CArray [text_part (Some ollama_placeholder_json)],
          CArray [text_part (Some ''a chart''),
                  \<lparr>c_type = ''image_url'', c_text = None,
                   c_image_url = Some ''data:image/png;base64,iVBORw0KGgo='',
                   c_images = None\<rparr>]]"
  using rich_tool_result_messages
    [where toolResult = image_result and p = example_platform and t = example_tool
       and pre = None
       and bs = "[JObj [(''type'', JStr ''text''), (''text'', JStr ''a chart'')],
                  JObj [(''type'', JStr ''image''), (''data'', JStr ''iVBORw0KGgo=''),
                        (''mimeType'', JStr ''image/png'')]]"
       and cbs = "[\<lparr>block_type = ''text'', block_text = Some ''a chart'',
                     block_payload = JObj [(''type'', JStr ''text''), (''text'', JStr ''a chart'')]\<rparr>,
                   \<lparr>block_type = ''image'', block_text = None,
                     block_payload = JObj [(''type'', JStr ''image''), (''data'', JStr ''iVBORw0KGgo=''),
                        (''mimeType'', JStr ''image/png'')]\<rparr>]"]
  by (simp add: image_result_def example_platform_def example_convert_def example_tool_def
        example_legacy_def example_stringify_def in_completion_order_def unshifted_def
        or_empty_object_def)

text \<open>
  Claim C2. For a tool result that is not an error and whose content is one block that the
  converter turns into a text block, and with no preceding text, the Anthropic adapter
  returns exactly two messages: the assistant message with the one \<open>tool_use\<close> block of the
  tool's id, name and arguments, and the user message with the one \<open>tool_result\<close> block
  of the same id whose content is the text, a string.
\<close>

theorem single_text_tool_result_messages:
  assumes "js_prop toolResult ''content'' = JArr [b]"
      and "\<not> truthy (js_prop toolResult ''isError'')"
      and "convert p (resolveResource p t) b = Some fb"
      and "block_type fb = ''text''"
      and "block_text fb = Some body"
  shows "anthropic_makeToolMessages p t toolResult None =
           Inr [\<lparr>a_role = ''assistant'',
                 a_content = Blocks
                   [ToolUse (tool_id t) (tool_name t) (or_empty_object (tool_args t))]\<rparr>,
                \<lparr>a_role = ''user'',
                 a_content = Blocks [ToolResult (tool_id t) (Some body)]\<rparr>]"
proof -
  have nn: "\<not> nullish toolResult" "\<And>s. toolResult \<noteq> JStr s"
    using assms(1) by (cases toolResult; simp)+
  have cb: "anthropic_convertedBlocks p t [b] = Inr [fb]"
    using assms(3) by (simp add: anthropic_convertedBlocks_def in_completion_order_single)
  show ?thesis
    using nn assms cb
    by (cases toolResult)
       (simp_all add: anthropic_makeToolMessages_def anthropic_result_def join_opt_def
          unshifted_def)
qed

theorem single_text_tool_result_messages_witness:
  "anthropic_makeToolMessages example_platform example_tool text_result None =
     Inr [\<lparr>a_role = ''assistant'',
           a_content = Blocks [ToolUse ''toolu_01'' ''files--read_file''
                                 (JObj [(''path'', JStr ''notes.txt'')])]\<rparr>,
          \<lparr>a_role = ''user'',
           a_content = Blocks [ToolResult ''toolu_01'' (Some ''hello'')]\<rparr>]"
  using single_text_tool_result_messages
    [where toolResult = text_result and p = example_platform and t = example_tool
       and b = "JObj [(''type'', JStr ''text''), (''text'', JStr ''hello'')]"
       and fb = "\<lparr>block_type = ''text'', block_text = Some ''hello'',
                   block_payload = JObj [(''type'', JStr ''text''), (''text'', JStr ''hello'')]\<rparr>"
       and body = "''hello''"]
  by (simp add: text_result_def example_platform_def example_convert_def example_tool_def
        or_empty_object_def)

text \<open>
  Claim C4. For a tool result whose \<open>isError\<close> is true, both adapters return messages and
  do not raise: the Anthropic user message holds one \<open>tool_result\<close> block whose content is
  \<open>JSON.stringify\<close> of the error, the Ollama tool message one text part with the same
  serialization; no other part and no supplemental message.
\<close>

theorem error_tool_result_messages:
  assumes "truthy (js_prop toolResult ''isError'')"
  shows "anthropic_makeToolMessages p t toolResult pre =
           Inr [\<lparr>a_role = ''assistant'',
                 a_content = Blocks (unshifted pre @
                   [ToolUse (tool_id t) (tool_name t) (or_empty_object (tool_args t))])\<rparr>,
                \<lparr>a_role = ''user'',
                 a_content = Blocks
                   [ToolResult (tool_id t)
                      (JSON_stringify p (js_prop toolResult ''error''))]\<rparr>]
         \<and> ollama_makeToolMessages p t toolResult =
           Inr [\<lparr>role = ''assistant'', content = CNone, name = None,
                 tool_calls = JArr [JObj [(''id'', JStr (tool_id t)),
                                          (''type'', JStr ''function''),
                                          (''function'', JObj [(''arguments'', tool_args t),
                                                               (''name'', JStr (tool_name t))])]],
                 tool_call_id = None, images = None\<rparr>,
                \<lparr>role = ''tool'',
                 content = CArray
                   [text_part (JSON_stringify p (js_prop toolResult ''error''))],
                 name = Some (tool_name t), tool_calls = JUndefined,
                 tool_call_id = Some (tool_id t), images = None\<rparr>]"
  using assms
  by (cases toolResult)
     (simp_all add: anthropic_makeToolMessages_def anthropic_result_def
        ollama_makeToolMessages_def ollama_result_def)

theorem error_tool_result_messages_witness:
  "anthropic_makeToolMessages example_platform example_tool error_result None =
     Inr [\<lparr>a_role = ''assistant'',
           a_content = Blocks [ToolUse ''toolu_01'' ''files--read_file''
                                 (JObj [(''path'', JStr ''notes.txt'')])]\<rparr>,
          \<lparr>a_role = ''user'',
           a_content = Blocks
             [ToolResult ''toolu_01'' (Some ([CHR 0x22] @ ''ENOENT'' @ [CHR 0x22]))]\<rparr>]
   \<and> map content (projr (ollama_makeToolMessages example_platform example_tool error_result))
       = [CNone, CArray [text_part (Some ([CHR 0x22] @ ''ENOENT'' @ [CHR 0x22]))]]"
  using error_tool_result_messages
    [where toolResult = error_result and p = example_platform and t = example_tool
       and pre = None]
  by (simp add: error_result_def example_platform_def example_tool_def example_stringify_def
        unshifted_def or_empty_object_def)

text \<open>
  Claim C10. With a non-empty preceding text, the Anthropic adapter fails exactly when it
  fails without the text, and otherwise returns the two messages it returns without the
  text, the text put as a text block in front of the \<open>tool_use\<close> block of the assistant
  message and the user message unchanged.
\<close>

theorem preceding_text_is_unshifted:
  assumes "c \<noteq> []"
  shows "case anthropic_makeToolMessages p t toolResult None of
           Inl e \<Rightarrow> anthropic_makeToolMessages p t toolResult (Some c) = Inl e
         | Inr ms \<Rightarrow>
             (\<exists>parts.
                ms = [\<lparr>a_role = ''assistant'',
                       a_content = Blocks
                         [ToolUse (tool_id t) (tool_name t) (or_empty_object (tool_args t))]\<rparr>,
                      \<lparr>a_role = ''user'', a_content = Blocks parts\<rparr>]
              \<and> anthropic_makeToolMessages p t toolResult (Some c) =
                  Inr [\<lparr>a_role = ''assistant'',
                        a_content = Blocks
                          [TextBlock (Some c),
                           ToolUse (tool_id t) (tool_name t) (or_empty_object (tool_args t))]\<rparr>,
                       \<lparr>a_role = ''user'', a_content = Blocks parts\<rparr>])"
  using assms
  by (auto simp add: anthropic_makeToolMessages_def anthropic_result_def unshifted_def Let_def
        split: sum.splits)

theorem preceding_text_is_unshifted_witness:
  "anthropic_makeToolMessages example_platform example_tool text_result
     (Some ''I will read the file.'') =
     Inr [\<lparr>a_role = ''assistant'',
           a_content = Blocks [TextBlock (Some ''I will read the file.''),
                               ToolUse ''toolu_01'' ''files--read_file''
                                 (JObj [(''path'', JStr ''notes.txt'')])]\<rparr>,
          \<lparr>a_role = ''user'',
           a_content = Blocks [ToolResult ''toolu_01'' (Some ''hello'')]\<rparr>]"
  using preceding_text_is_unshifted
    [where c = "''I will read the file.''" and p = example_platform and t = example_tool
       and toolResult = text_result]
  by (simp add: text_result_def example_platform_def example_convert_def example_tool_def
        or_empty_object_def anthropic_makeToolMessages_def anthropic_convertedBlocks_def
        anthropic_result_def in_completion_order_single unshifted_def join_opt_def)

section \<open>Anthropic payload: theorems\<close>

lemma with_max_tokens_tools [simp]:
  "tools (with_max_tokens ctx pl) = tools pl"
  "tool_choice (with_max_tokens ctx pl) = tool_choice pl"
  by (simp_all add: with_max_tokens_def split: option.splits)

lemma unusedTools_empty:
  "(unusedTools ctx w ts = []) = (\<forall>t \<in> set ts. mt_name t \<in> set (usedToolNames ctx))"
  by (auto simp add: unusedTools_def filter_empty_conv)

lemma with_tools_cases:
  assumes "with_tools ctx w pl = Inr pl'" and "tools pl = None" and "tool_choice pl = None"
  shows "(tools pl' = None \<and> tool_choice pl' = None \<and>
            (\<not> isToolsEnabled ctx \<or> listTools w = Inr None
             \<or> (\<exists>ts. listTools w = Inr (Some ts) \<and> unusedTools ctx w ts = [])))
         \<or> (isToolsEnabled ctx \<and>
              (\<exists>ts. listTools w = Inr (Some ts) \<and> unusedTools ctx w ts \<noteq> []
                 \<and> tools pl' = Some (unusedTools ctx w ts)
                 \<and> tool_choice pl' = Some \<lparr>tc_type = ''auto'', disable_parallel_tool_use = True\<rparr>))"
  using assms
  by (auto simp add: with_tools_def split: if_splits sum.splits option.splits)

lemma makePayload_tools:
  assumes "makePayload ctx w msgs msgId = (logged, Inr pl)"
  obtains pl0 pl' where "tools pl0 = None" and "tool_choice pl0 = None"
    and "with_tools ctx w pl0 = Inr pl'" and "pl = with_max_tokens ctx pl'"
proof -
  from assms obtain ms pl' where
    "with_tools ctx w
       (with_max_tokens ctx
          (if \<not> isBlank w (getSystemMessage ctx)
           then \<lparr>model = getModelName ctx, messages = ms,
                 temperature = getTemperature ctx, stream = True,
                 system = None, max_tokens = None, tools = None,
                 tool_choice = None\<rparr>\<lparr>system := getSystemMessage ctx\<rparr>
           else \<lparr>model = getModelName ctx, messages = ms,
                 temperature = getTemperature ctx, stream = True,
                 system = None, max_tokens = None, tools = None,
                 tool_choice = None\<rparr>)) = Inr pl'"
    and "pl = with_max_tokens ctx pl'"
    by (auto simp add: makePayload_def Let_def split: prod.splits sum.splits)
  then show ?thesis
    by (intro that [of _ pl']) simp_all
qed

text \<open>
  Claim C3. In a payload returned by the Anthropic \<open>makePayload\<close>, \<open>tools\<close> is present only
  when tool use is enabled and the tool host lists a tool whose name is not among the used
  tool names, and is then the schema of the unused tools, with \<open>tool_choice\<close> equal to
  \<open>{type: 'auto', disable_parallel_tool_use: true}\<close>; when every listed tool is used the
  payload has neither \<open>tools\<close> nor \<open>tool_choice\<close>; and \<open>tool_choice\<close> is never present
  without \<open>tools\<close>.
\<close>

theorem payload_tools:
  assumes "makePayload ctx w msgs msgId = (logged, Inr pl)"
  shows "(tools pl \<noteq> None \<longrightarrow>
            isToolsEnabled ctx
            \<and> (\<exists>ts. listTools w = Inr (Some ts)
                   \<and> (\<exists>t \<in> set ts. mt_name t \<notin> set (usedToolNames ctx))
                   \<and> tools pl = Some (unusedTools ctx w ts))
            \<and> tool_choice pl = Some \<lparr>tc_type = ''auto'', disable_parallel_tool_use = True\<rparr>)
         \<and> ((\<forall>ts. listTools w = Inr (Some ts) \<longrightarrow>
                  (\<forall>t \<in> set ts. mt_name t \<in> set (usedToolNames ctx)))
              \<longrightarrow> tools pl = None \<and> tool_choice pl = None)
         \<and> (tools pl = None \<longrightarrow> tool_choice pl = None)"
proof -
  from assms obtain pl0 pl' where pl0: "tools pl0 = None" "tool_choice pl0 = None"
    and wt: "with_tools ctx w pl0 = Inr pl'" and pl: "pl = with_max_tokens ctx pl'"
    by (rule makePayload_tools)
  from with_tools_cases [OF wt pl0] show ?thesis
    unfolding pl by (auto simp add: unusedTools_empty)
qed

theorem payload_tools_witness:
  "makePayload example_context offline_web question None = ([], Inr example_payload)
   \<and> isToolsEnabled example_context
   \<and> (\<exists>t \<in> set example_tools. mt_name t \<notin> set (usedToolNames example_context))
   \<and> tools example_payload = Some (unusedTools example_context offline_web example_tools)
   \<and> tool_choice example_payload =
       Some \<lparr>tc_type = ''auto'', disable_parallel_tool_use = True\<rparr>"
proof -
  have run: "makePayload example_context offline_web question None = ([], Inr example_payload)"
    by (simp add: makePayload_def anthropic_makeMessages_def example_context_def
          offline_web_def question_def history_of_def plain_message_def
          anthropic_processMessage_def anthropic_convertPromptContent_def promise_all_def
          anthropic_convertItem_def with_max_tokens_def with_tools_def unusedTools_def
          makeTool_def example_tools_def or_else_def example_prompt_def example_payload_def)
  have listed: "listTools offline_web = Inr (Some example_tools)"
    by (simp add: offline_web_def)
  have some: "tools example_payload \<noteq> None"
    by (simp add: example_payload_def)
  from payload_tools [OF run] some listed run show ?thesis
    by simp
qed

section \<open>DeepSeek messages: theorems\<close>

lemma deepseek_format_flattened:
  "map the (filter (\<lambda>m. m \<noteq> None) (map deepseek_format result)) = deepseek_flattened result"
  by (induction result) (simp_all add: deepseek_format_def split: msg_content.splits)

lemma deepseek_flattened_strings:
  "m \<in> set (deepseek_flattened result) \<Longrightarrow> \<exists>s. content m = CString s"
  by (induction result) (auto split: msg_content.splits)

text \<open>
  Claim C9. When the OpenAI adapter's \<open>makeMessages\<close> returns, the DeepSeek adapter
  returns the messages of that result with every array content replaced by the texts of
  its parts joined by newlines (the empty string for a part without text) and every
  message whose content is neither a string nor an array left out; all of the returned
  messages have a string content.
\<close>

theorem deepseek_messages_are_flattened:
  assumes "super msgs msgId = Inr result"
  shows "deepseek_makeMessages super msgs msgId = Inr (deepseek_flattened result)
         \<and> (\<forall>m \<in> set (deepseek_flattened result). \<exists>s. content m = CString s)"
proof -
  have "deepseek_makeMessages super msgs msgId = Inr (deepseek_flattened result)"
    using assms by (simp only: deepseek_makeMessages_def deepseek_format_flattened sum.case)
  then show ?thesis
    using deepseek_flattened_strings by blast
qed

theorem deepseek_messages_are_flattened_witness:
  "deepseek_makeMessages passthrough
     [plain_message ''user'' (CArray [text_part (Some ''look''), audio_part, text_part (Some ''here'')]),
      plain_message ''user'' CNone,
      plain_message ''assistant'' (CString ''fine'')] None
   = Inr [plain_message ''user'' (CString (''look'' @ newline @ newline @ ''here'')),
          plain_message ''assistant'' (CString ''fine'')]"
  using deepseek_messages_are_flattened
    [where super = passthrough and msgId = None
       and msgs = "[plain_message ''user'' (CArray [text_part (Some ''look''), audio_part, text_part (Some ''here'')]),
      plain_message ''user'' CNone,
      plain_message ''assistant'' (CString ''fine'')]"
       and result = "[plain_message ''user'' (CArray [text_part (Some ''look''), audio_part, text_part (Some ''here'')]),
      plain_message ''user'' CNone,
      plain_message ''assistant'' (CString ''fine'')]"]
  by (simp add: passthrough_def plain_message_def text_part_def audio_part_def)

section \<open>Prompt content: a fetch that fails\<close>

text \<open>
  Claim C5. The prompt \<open>example_prompt\<close> has two texts, a local image and a remote image,
  and the fetch of the remote image fails. The Anthropic \<open>convertPromptContent\<close> is
  rejected as a whole: \<open>getBase64\<close> is awaited outside any \<open>try\<close>. The Ollama
  \<open>convertPromptContent\<close> returns the texts without an \<open>images\<close> field: with no remote
  image left, the local image is not assigned either.
\<close>

theorem failed_fetch_in_prompt:
  "anthropic_convertPromptContent example_context offline_web example_prompt = Inl FetchRejected
   \<and> ollama_convertPromptContent example_context offline_web example_prompt =
       \<lparr>op_content = ''Compare '' @ newline @ '' with '', op_images = None\<rparr>"
  by (simp add: anthropic_convertPromptContent_def ollama_convertPromptContent_def
        example_context_def offline_web_def example_items_def promise_all_def
        anthropic_convertItem_def remoteImage_def localImage_def split_comma_second_def)

section \<open>Anthropic messages: theorems\<close>

text \<open>
  Claim C7. For a message of role \<open>tool\<close> the Anthropic \<open>makeMessages\<close> returns, after the
  history, the object \<open>{content, type: 'tool_result', tool_use_id}\<close> itself as an element
  of the message array: it has no role and is not inside the content of a user message.
\<close>

theorem tool_role_message_entry:
  "anthropic_makeMessages example_context offline_web [tool_message] None =
     ([], Inr [Passed (plain_message ''user'' (CString ''Hi'')),
               Passed (plain_message ''assistant'' (CString ''Hello!'')),
               ToolResultEntry (Some ([CHR 0x22] @ ''42'' @ [CHR 0x22])) (Some ''call_1'')])"
  by (simp add: anthropic_makeMessages_def example_context_def offline_web_def
        tool_message_def history_of_def anthropic_processMessage_def promise_all_def)








section \<open>Ollama messages: theorems\<close>



















end
